theory Spec2Isabelle
  imports Main "HOL-Library.AList"
begin

section \<open>Values exchanged with the store driver\<close>

text \<open>
  A Python \<open>str\<close> as the string field of a reply sees it: a text that the field accepts
  (given by its UTF-8 bytes), or a \<open>str\<close> that holds a lone surrogate, which no string
  field and no output stream accepts.
\<close>

datatype pystr = Text string | Unencodable

text \<open>
  Exceptions that the driver, the metadata objects or the seed collaborators can raise
  into the service (subclasses of Python's \<open>Exception\<close>). The two classes that the
  handlers name in their \<open>except\<close> clauses are kept apart; every other class is
  \<open>OtherException\<close>. The argument is what \<open>str(e)\<close> gives.
\<close>

datatype exn =
    Unavailable pystr
  | NoHostAvailable pystr
  | OtherException pystr

fun str :: "exn \<Rightarrow> pystr" where
  "str (Unavailable m) = m"
| "str (NoHostAvailable m) = m"
| "str (OtherException m) = m"

text \<open>
  What encoding an \<open>Unencodable\<close> \<open>str\<close> raises (\<open>UnicodeEncodeError\<close>; its message also
  names the character and its position).
\<close>

definition unicode_encode_error :: exn where
  "unicode_encode_error = OtherException (Text ''surrogates not allowed'')"

text \<open>\<open>cassandra.query.ConsistencyLevel\<close> (\<open>ALL_LEVEL\<close> is its \<open>ALL\<close>).\<close>

datatype ConsistencyLevel =
  ANY | ONE | TWO | THREE | QUORUM | ALL_LEVEL | LOCAL_QUORUM | EACH_QUORUM
  | SERIAL | LOCAL_SERIAL | LOCAL_ONE

text \<open>The statements that \<open>server.py\<close> sends, one constructor per CQL text.\<close>

datatype order = Asc | Desc

record table_def =
  table_name :: string
  columns :: "(string \<times> string \<times> bool) list"
  partition_key :: "string list"
  clustering_key :: "(string \<times> order) list"

datatype cql =
    DropKeyspaceIfExists string
  | CreateKeyspace string string nat
  | CreateTypeIfNotExists string "(string \<times> string) list"
  | CreateTableIfNotExists table_def
  | InsertName
  | InsertRecord
  | SelectName
  | SelectTmax

text \<open>
  A prepared statement: the query and its \<open>consistency_level\<close> attribute, which is
  \<open>None\<close> until the program assigns it (the session's default applies then).
\<close>

record prepared =
  query :: cql
  consistency_level :: "ConsistencyLevel option"

definition effective_consistency :: "ConsistencyLevel \<Rightarrow> prepared \<Rightarrow> ConsistencyLevel" where
  "effective_consistency session_default stmt =
     (case consistency_level stmt of None \<Rightarrow> session_default | Some c \<Rightarrow> c)"

text \<open>
  A cell of a result row as \<open>StationMax\<close> reads it: \<open>None\<close>, an integer, or a value on
  which \<open>int(...)\<close> raises \<open>ValueError\<close> or \<open>TypeError\<close>.
\<close>

datatype cell = NoneVal | IntVal int | Unconvertible

type_synonym row = "cell list"

text \<open>
  A result set is iterated lazily: it yields rows until it ends, or until fetching the
  next page raises.
\<close>

datatype result_set = End | Yield row result_set | Raise exn

fun of_rows :: "row list \<Rightarrow> result_set" where
  "of_rows [] = End"
| "of_rows (r # rs) = Yield r (of_rows rs)"

text \<open>
  The session, as the request handlers use it. \<open>execute_name\<close> is
  \<open>session.execute(select_name, (station,)).one()\<close>: no row, or a row whose \<open>name\<close> is
  null or a string. Every call takes the state of the store and returns the new one.
\<close>

record 's session =
  execute_insert :: "prepared \<Rightarrow> string \<Rightarrow> string \<Rightarrow> int \<times> int \<Rightarrow> 's \<Rightarrow> exn option \<times> 's"
  execute_name :: "prepared \<Rightarrow> string \<Rightarrow> 's \<Rightarrow> (exn + string option option) \<times> 's"
  execute_tmax :: "prepared \<Rightarrow> string \<Rightarrow> 's \<Rightarrow> (exn + result_set) \<times> 's"

text \<open>The attributes that \<open>__init__\<close> leaves on the service object.\<close>

record service =
  init_insert_name :: "prepared option"
  insert_temp :: prepared
  select_name :: prepared
  select_tmax :: "prepared option"

section \<open>The request handlers\<close>

datatype StationNameReply = StationNameReply (sn_name: string) (sn_error: string)
datatype RecordTempsReply = RecordTempsReply (rt_error: string)
datatype StationMaxReply = StationMaxReply (sm_tmax: int) (sm_error: string)



text \<open>
  A handler either returns its reply or lets an exception leave it (\<open>Inl\<close>). The replies of
  the \<open>except\<close> clauses put \<open>str(e)\<close> in the error field; they are built outside every
  \<open>try\<close>, so that when the field refuses the \<open>str\<close> the exception leaves the handler.
\<close>

definition error_reply :: "(string \<Rightarrow> 'r) \<Rightarrow> pystr \<Rightarrow> exn + 'r" where
  "error_reply build m =
     (case m of Text t \<Rightarrow> Inr (build t) | Unencodable \<Rightarrow> Inl unicode_encode_error)"


definition StationName ::
  "'s session \<Rightarrow> service \<Rightarrow> string \<Rightarrow> 's \<Rightarrow> (exn + StationNameReply) \<times> 's" where
  "StationName sess self station s =
     (case execute_name sess (select_name self) station s of
        (Inl e, s') \<Rightarrow> (error_reply (StationNameReply '''') (str e), s')
      | (Inr None, s') \<Rightarrow> (Inr (StationNameReply '''' ''station not found or name missing''), s')
      | (Inr (Some None), s') \<Rightarrow>
          (Inr (StationNameReply '''' ''station not found or name missing''), s')
      | (Inr (Some (Some name)), s') \<Rightarrow>
          (if name \<noteq> '''' then (Inr (StationNameReply name ''''), s')
           else (Inr (StationNameReply '''' ''station not found or name missing''), s')))"

fun record_error :: "exn \<Rightarrow> exn + RecordTempsReply" where
  "record_error (Unavailable m) = Inr (RecordTempsReply ''unavailable'')"
| "record_error (NoHostAvailable m) = Inr (RecordTempsReply ''unavailable'')"
| "record_error (OtherException m) = error_reply RecordTempsReply (str (OtherException m))"

definition RecordTemps ::
  "'s session \<Rightarrow> service \<Rightarrow> string \<Rightarrow> string \<Rightarrow> int \<Rightarrow> int \<Rightarrow> 's
   \<Rightarrow> (exn + RecordTempsReply) \<times> 's" where
  "RecordTemps sess self station date tmin tmax s =
     (let date_value = date;
          record_tuple = (tmin, tmax)
      in case execute_insert sess (insert_temp self) station date_value record_tuple s of
           (None, s') \<Rightarrow> (Inr (RecordTempsReply ''''), s')
         | (Some e, s') \<Rightarrow> (record_error e, s'))"

text \<open>The inner \<open>try\<close> of the scan: \<open>current_tmax\<close> for one row.\<close>

fun current_tmax :: "row \<Rightarrow> int option" where
  "current_tmax [] = None"
| "current_tmax (NoneVal # _) = None"
| "current_tmax (IntVal i # _) = Some i"
| "current_tmax (Unconvertible # _) = None"

text \<open>The \<open>for row in rows\<close> loop, with \<open>max_tmax\<close> as the accumulator.\<close>

fun scan :: "result_set \<Rightarrow> int option \<Rightarrow> exn + int option" where
  "scan End max_tmax = Inr max_tmax"
| "scan (Raise e) max_tmax = Inl e"
| "scan (Yield r rest) max_tmax =
     (case current_tmax r of
        None \<Rightarrow> scan rest max_tmax
      | Some cur \<Rightarrow>
          (case max_tmax of
             None \<Rightarrow> scan rest (Some cur)
           | Some m \<Rightarrow> if cur > m then scan rest (Some cur) else scan rest max_tmax))"

fun max_error :: "exn \<Rightarrow> exn + StationMaxReply" where
  "max_error (Unavailable m) = Inr (StationMaxReply 0 ''unavailable'')"
| "max_error (NoHostAvailable m) = Inr (StationMaxReply 0 ''unavailable'')"
| "max_error (OtherException m) = error_reply (StationMaxReply 0) (str (OtherException m))"

definition StationMax ::
  "'s session \<Rightarrow> service \<Rightarrow> string \<Rightarrow> 's \<Rightarrow> (exn + StationMaxReply) \<times> 's" where
  "StationMax sess self station s =
     (case select_tmax self of
        None \<Rightarrow> (Inr (StationMaxReply 0 ''Server error: select statement not prepared''), s)
      | Some stmt \<Rightarrow>
          (case execute_tmax sess stmt station s of
             (Inl e, s') \<Rightarrow> (max_error e, s')
           | (Inr rows, s') \<Rightarrow>
               (case scan rows None of
                  Inl e \<Rightarrow> (max_error e, s')
                | Inr max_tmax \<Rightarrow>
                    (Inr (StationMaxReply (case max_tmax of None \<Rightarrow> 0 | Some m \<Rightarrow> m) ''''),
                     s'))))"

section \<open>Start-up: \<open>StationService.__init__\<close> and \<open>serve\<close>\<close>

text \<open>
  What the constructor asks of its collaborators, in order. The environment says how
  each call ends; the constructor is modelled with the log of the calls it has made.
\<close>

datatype action =
    Connect "string list" nat
  | Execute cql
  | SetKeyspace string
  | SparkCollect
  | Prepare cql
  | ExecuteSeed string string
  | Print string
  | StartServer nat nat

record station_row =
  row_id :: string
  row_name :: string

record env =
  project :: "string option"
  connect_result :: "exn option"
  execute_result :: "cql \<Rightarrow> exn option"
  set_keyspace_result :: "exn option"
  spark_result :: "exn + station_row list"
  prepare_result :: "cql \<Rightarrow> exn option"

definition drop_keyspace :: cql where
  "drop_keyspace = DropKeyspaceIfExists ''weather''"

definition create_keyspace :: cql where
  "create_keyspace = CreateKeyspace ''weather'' ''SimpleStrategy'' 3"

definition create_type :: cql where
  "create_type = CreateTypeIfNotExists ''station_record'' [(''tmin'', ''int''), (''tmax'', ''int'')]"

definition stations_table :: table_def where
  "stations_table =
     \<lparr>table_name = ''stations'',
      columns = [(''id'', ''text'', False), (''date'', ''date'', False),
                 (''name'', ''text'', True), (''record'', ''station_record'', False)],
      partition_key = [''id''],
      clustering_key = [(''date'', Asc)]\<rparr>"

definition create_table :: cql where
  "create_table = CreateTableIfNotExists stations_table"

definition contact_points :: "string option \<Rightarrow> string list" where
  "contact_points p =
     (let project = (case p of None \<Rightarrow> ''p6'' | Some v \<Rightarrow> v)
      in [project @ ''-db-1'', project @ ''-db-2'', project @ ''-db-3''])"

text \<open>
  \<open>str.strip()\<close>: the white space of a Python \<open>str\<close> (U+0009 to U+000D, U+001C to U+0020,
  U+0085, U+00A0, U+1680, U+2000 to U+200A, U+2028, U+2029, U+202F, U+205F, U+3000), as
  UTF-8 byte sequences, is removed at both ends.
\<close>

definition white_space :: "string list" where
  "white_space =
     [[CHR 0x09], [CHR 0x0A], [CHR 0x0B], [CHR 0x0C], [CHR 0x0D],
      [CHR 0x1C], [CHR 0x1D], [CHR 0x1E], [CHR 0x1F], [CHR 0x20],
      [CHR 0xC2, CHR 0x85], [CHR 0xC2, CHR 0xA0],
      [CHR 0xE1, CHR 0x9A, CHR 0x80],
      [CHR 0xE2, CHR 0x80, CHR 0x80], [CHR 0xE2, CHR 0x80, CHR 0x81],
      [CHR 0xE2, CHR 0x80, CHR 0x82], [CHR 0xE2, CHR 0x80, CHR 0x83],
      [CHR 0xE2, CHR 0x80, CHR 0x84], [CHR 0xE2, CHR 0x80, CHR 0x85],
      [CHR 0xE2, CHR 0x80, CHR 0x86], [CHR 0xE2, CHR 0x80, CHR 0x87],
      [CHR 0xE2, CHR 0x80, CHR 0x88], [CHR 0xE2, CHR 0x80, CHR 0x89],
      [CHR 0xE2, CHR 0x80, CHR 0x8A],
      [CHR 0xE2, CHR 0x80, CHR 0xA8], [CHR 0xE2, CHR 0x80, CHR 0xA9],
      [CHR 0xE2, CHR 0x80, CHR 0xAF],
      [CHR 0xE2, CHR 0x81, CHR 0x9F],
      [CHR 0xE3, CHR 0x80, CHR 0x80]]"

text \<open>The length of the white space that a string starts with, 0 when it starts with none.\<close>

definition space_prefix :: "string list \<Rightarrow> string \<Rightarrow> nat" where
  "space_prefix ws s =
     (case find (\<lambda>w. take (length w) s = w) ws of None \<Rightarrow> 0 | Some w \<Rightarrow> length w)"

function lstrip :: "string list \<Rightarrow> string \<Rightarrow> string" where
  "lstrip ws s =
     (if s = [] \<or> space_prefix ws s = 0 then s else lstrip ws (drop (space_prefix ws s) s))"
  by pat_completeness auto
termination
  by (relation "measure (\<lambda>(ws, s). length s)") auto

declare lstrip.simps [simp del]

definition strip :: "string \<Rightarrow> string" where
  "strip s = rev (lstrip (map rev white_space) (rev (lstrip white_space s)))"

text \<open>
  The seed loop. \<open>prepared_init_insert\<close> and \<open>self.init_insert_name\<close> are the loop's
  state; whatever a row's \<open>try\<close> body raises is dropped and the loop goes on.
\<close>

fun seed :: "env \<Rightarrow> station_row list \<Rightarrow> bool \<Rightarrow> prepared option \<Rightarrow> action list
             \<Rightarrow> prepared option \<times> action list" where
  "seed E [] prepared_init_insert stmt log = (stmt, log)"
| "seed E (r # rows) prepared_init_insert stmt log =
     (let station_id = strip (row_id r);
          station_name = strip (row_name r)
      in if \<not> prepared_init_insert then
           (case prepare_result E InsertName of
              Some e \<Rightarrow> seed E rows prepared_init_insert stmt (log @ [Prepare InsertName])
            | None \<Rightarrow>
                seed E rows True (Some \<lparr>query = InsertName, consistency_level = None\<rparr>)
                  (log @ [Prepare InsertName, ExecuteSeed station_id station_name]))
         else seed E rows prepared_init_insert stmt (log @ [ExecuteSeed station_id station_name]))"

text \<open>One call of the constructor that is not guarded: a failure ends the constructor.\<close>

definition attempt ::
  "action \<Rightarrow> exn option \<Rightarrow> (action list \<Rightarrow> (exn + 'a) \<times> action list) \<Rightarrow> action list
   \<Rightarrow> (exn + 'a) \<times> action list" where
  "attempt a r k log = (case r of Some e \<Rightarrow> (Inl e, log @ [a]) | None \<Rightarrow> k (log @ [a]))"

text \<open>
  The \<open>try\<close> around the three request statements prints and re-raises, so each
  preparation is an unguarded call followed, on failure, by the print. When the message
  cannot be printed, the print raises and its exception leaves the constructor instead.
\<close>

definition prepare_rpc ::
  "env \<Rightarrow> cql \<Rightarrow> (action list \<Rightarrow> (exn + 'a) \<times> action list) \<Rightarrow> action list
   \<Rightarrow> (exn + 'a) \<times> action list" where
  "prepare_rpc E q k log =
     (case prepare_result E q of
        Some e \<Rightarrow>
          (case str e of
             Text t \<Rightarrow>
               (Inl e, log @ [Prepare q,
                  Print (''!!! CRITICAL ERROR: Failed to prepare statements in __init__: '' @ t)])
           | Unencodable \<Rightarrow> (Inl unicode_encode_error, log @ [Prepare q]))
      | None \<Rightarrow> k (log @ [Prepare q]))"

definition init :: "env \<Rightarrow> (exn + service) \<times> action list" where
  "init E =
     attempt (Connect (contact_points (project E)) 30) (connect_result E)
      (attempt (Execute drop_keyspace) (execute_result E drop_keyspace)
      (attempt (Execute create_keyspace) (execute_result E create_keyspace)
      (attempt (SetKeyspace ''weather'') (set_keyspace_result E)
      (attempt (Execute create_type) (execute_result E create_type)
      (attempt (Execute create_table) (execute_result E create_table)
      (\<lambda>log.
         case spark_result E of
           Inl e \<Rightarrow> (Inl e, log @ [SparkCollect])
         | Inr wi_stations \<Rightarrow>
             (case seed E wi_stations False None (log @ [SparkCollect]) of
                (seed_stmt, log') \<Rightarrow>
                  prepare_rpc E InsertRecord
                   (prepare_rpc E SelectName
                   (prepare_rpc E SelectTmax
                   (\<lambda>log''.
                      (Inr \<lparr>init_insert_name = seed_stmt,
                            insert_temp = \<lparr>query = InsertRecord, consistency_level = Some ONE\<rparr>,
                            select_name = \<lparr>query = SelectName, consistency_level = Some ONE\<rparr>,
                            select_tmax = Some \<lparr>query = SelectTmax, consistency_level = Some THREE\<rparr>\<rparr>,
                       log'' @ [Print ''Server started''])))) log'))))))) []"

datatype process = Aborted exn | Serving service

definition serve :: "env \<Rightarrow> process \<times> action list" where
  "serve E =
     (case init E of
        (Inl e, log) \<Rightarrow> (Aborted e, log)
      | (Inr service_instance, log) \<Rightarrow> (Serving service_instance, log @ [StartServer 5440 9]))"

section \<open>The replicated store\<close>

text \<open>
  Modelled from the spec: the replicated store behind the session, which is not part of
  \<open>server.py\<close>. Following the data model of the spec, a station's name is one static
  value per partition, \<open>(station, date)\<close> determines at most one record and a later write
  for the same key overwrites it; a call whose consistency level needs more replicas
  than are reachable ends with \<open>Unavailable\<close> (with no replica at all,
  \<open>NoHostAvailable\<close>). With three replicas and the tmax read at \<open>THREE\<close>, a read that
  succeeds sees every acknowledged write, so one image of the table is kept. What the
  store accepts as a station, a date and a record is left open (\<open>accepts\<close>), as is the
  session's default consistency level.
\<close>

record store =
  station_names :: "(string \<times> string) list"
  station_days :: "((string \<times> string) \<times> (int \<times> int)) list"
  reachable :: nat

fun replicas_required :: "ConsistencyLevel \<Rightarrow> nat" where
  "replicas_required ANY = 0"
| "replicas_required ONE = 1"
| "replicas_required TWO = 2"
| "replicas_required THREE = 3"
| "replicas_required QUORUM = 2"
| "replicas_required ALL_LEVEL = 3"
| "replicas_required LOCAL_QUORUM = 2"
| "replicas_required EACH_QUORUM = 2"
| "replicas_required SERIAL = 2"
| "replicas_required LOCAL_SERIAL = 2"
| "replicas_required LOCAL_ONE = 1"

definition refusal :: "ConsistencyLevel \<Rightarrow> store \<Rightarrow> exn option" where
  "refusal c \<sigma> =
     (if reachable \<sigma> = 0 then
        Some (NoHostAvailable (Text ''Unable to complete the operation against any hosts''))
      else if reachable \<sigma> < replicas_required c then
        Some (Unavailable (Text ''Cannot achieve consistency level''))
      else None)"

definition tmax_rows :: "string \<Rightarrow> store \<Rightarrow> row list" where
  "tmax_rows station \<sigma> =
     (let rs = map (\<lambda>(k, r). [IntVal (snd r)]) (filter (\<lambda>(k, r). fst k = station) (station_days \<sigma>))
      in if rs = [] \<and> map_of (station_names \<sigma>) station \<noteq> None then [[NoneVal]] else rs)"

definition name_row :: "string \<Rightarrow> store \<Rightarrow> string option option" where
  "name_row station \<sigma> =
     (case map_of (station_names \<sigma>) station of
        Some n \<Rightarrow> Some (Some n)
      | None \<Rightarrow> if filter (\<lambda>(k, r). fst k = station) (station_days \<sigma>) = [] then None
                else Some None)"

definition store_session ::
  "(string \<Rightarrow> string \<Rightarrow> int \<times> int \<Rightarrow> bool) \<Rightarrow> ConsistencyLevel \<Rightarrow> store session" where
  "store_session accepts session_default =
     \<lparr>execute_insert = (\<lambda>stmt station date r \<sigma>.
        if \<not> accepts station date r then (Some (OtherException (Text ''invalid parameter'')), \<sigma>)
        else (case refusal (effective_consistency session_default stmt) \<sigma> of
                Some e \<Rightarrow> (Some e, \<sigma>)
              | None \<Rightarrow>
                  (None, \<sigma>\<lparr>station_days := AList.update (station, date) r (station_days \<sigma>)\<rparr>))),
      execute_name = (\<lambda>stmt station \<sigma>.
        case refusal (effective_consistency session_default stmt) \<sigma> of
          Some e \<Rightarrow> (Inl e, \<sigma>)
        | None \<Rightarrow> (Inr (name_row station \<sigma>), \<sigma>)),
      execute_tmax = (\<lambda>stmt station \<sigma>.
        case refusal (effective_consistency session_default stmt) \<sigma> of
          Some e \<Rightarrow> (Inl e, \<sigma>)
        | None \<Rightarrow> (Inr (of_rows (tmax_rows station \<sigma>)), \<sigma>))\<rparr>"

text \<open>What happens between two requests: further recordings, and replicas lost or regained.\<close>

datatype event = Record string string int int | Reach nat

fun happen :: "store session \<Rightarrow> service \<Rightarrow> event \<Rightarrow> store \<Rightarrow> store" where
  "happen sess self (Record station date tmin tmax) \<sigma> =
     snd (RecordTemps sess self station date tmin tmax \<sigma>)"
| "happen sess self (Reach n) \<sigma> = \<sigma>\<lparr>reachable := n\<rparr>"

fun writes_key :: "string \<times> string \<Rightarrow> event \<Rightarrow> bool" where
  "writes_key k (Record station date tmin tmax) = (k = (station, date))"
| "writes_key k (Reach n) = False"

section \<open>The maximum, in the words of the specification\<close>

text \<open>
  The values that are present and readable, and their maximum with 0 when there is none.
\<close>

definition present_values :: "row list \<Rightarrow> int list" where
  "present_values rows = [v. IntVal v # others \<leftarrow> rows]"

definition maximum_or_default :: "int list \<Rightarrow> int" where
  "maximum_or_default vs = (if vs = [] then 0 else Max (set vs))"

text \<open>The accumulator of the scan after a list of readable values.\<close>

fun acc_max :: "int option \<Rightarrow> int list \<Rightarrow> int option" where
  "acc_max acc [] = acc"
| "acc_max None (v # vs) = acc_max (Some v) vs"
| "acc_max (Some m) (v # vs) = acc_max (Some (max m v)) vs"

text \<open>The exceptions that \<open>RecordTemps\<close> and \<open>StationMax\<close> report as \<open>unavailable\<close>.\<close>

fun unavailable_outcome :: "exn \<Rightarrow> bool" where
  "unavailable_outcome (Unavailable m) = True"
| "unavailable_outcome (NoHostAvailable m) = True"
| "unavailable_outcome (OtherException m) = False"

section \<open>Concrete start-ups and stores\<close>

text \<open>A start-up in which every call succeeds and the reference file has one Wisconsin row.\<close>

definition healthy_env :: env where
  "healthy_env =
     \<lparr>project = None,
      connect_result = None,
      execute_result = (\<lambda>q. None),
      set_keyspace_result = None,
      spark_result = Inr [\<lparr>row_id = ''USW00014837'', row_name = ''MADISON DANE RGNL AP   ''\<rparr>],
      prepare_result = (\<lambda>q. None)\<rparr>"

text \<open>The same start-up, except that preparing the seed insert fails.\<close>

definition seed_prepare_fails :: env where
  "seed_prepare_fails =
     healthy_env\<lparr>prepare_result :=
       (\<lambda>q. if q = InsertName then Some (OtherException (Text ''Operation timed out'')) else None)\<rparr>"

text \<open>The same start-up, except that creating the table fails.\<close>

definition create_table_fails :: env where
  "create_table_fails =
     healthy_env\<lparr>execute_result :=
       (\<lambda>q. if q = create_table then Some (OtherException (Text ''Operation timed out'')) else None)\<rparr>"

text \<open>The service object that the start-up without failure leaves.\<close>

definition deployed :: service where
  "deployed =
     \<lparr>init_insert_name = Some \<lparr>query = InsertName, consistency_level = None\<rparr>,
      insert_temp = \<lparr>query = InsertRecord, consistency_level = Some ONE\<rparr>,
      select_name = \<lparr>query = SelectName, consistency_level = Some ONE\<rparr>,
      select_tmax = Some \<lparr>query = SelectTmax, consistency_level = Some THREE\<rparr>\<rparr>"

text \<open>A store that accepts every parameter, behind a session whose default is \<open>LOCAL_ONE\<close>.\<close>

definition cluster :: "store session" where
  "cluster = store_session (\<lambda>station date r. True) LOCAL_ONE"

definition fresh :: "nat \<Rightarrow> store" where
  "fresh n = \<lparr>station_names = [], station_days = [], reachable = n\<rparr>"


text \<open>A store holding three stations: two days of July, two of January, one reading of 0.\<close>

definition july :: store where
  "july =
     \<lparr>station_names = [(''USW00014837'', ''MADISON DANE RGNL AP'')],
      station_days = [((''USW00014837'', ''2023-07-01''), (18, 31)),
                      ((''USW00014837'', ''2023-07-02''), (19, 28)),
                      ((''USC00470273'', ''2023-01-15''), (-21, -7)),
                      ((''USC00470273'', ''2023-01-16''), (-18, -5)),
                      ((''USC00474546'', ''2023-03-01''), (-4, 0))],
      reachable = 3\<rparr>"

definition tmax_stmt :: prepared where
  "tmax_stmt = \<lparr>query = SelectTmax, consistency_level = Some THREE\<rparr>"

text \<open>A result set whose second page cannot be fetched.\<close>

definition second_page_lost :: result_set where
  "second_page_lost = Yield [IntVal 31] (Raise (Unavailable (Text ''Cannot achieve consistency level'')))"

text \<open>A session that answers every call with a fixed outcome.\<close>

definition canned ::
  "exn option \<Rightarrow> exn + string option option \<Rightarrow> exn + result_set \<Rightarrow> unit session" where
  "canned w n t =
     \<lparr>execute_insert = (\<lambda>stmt station date r s. (w, s)),
      execute_name = (\<lambda>stmt station s. (n, s)),
      execute_tmax = (\<lambda>stmt station s. (t, s))\<rparr>"

text \<open>A store with one recorded day.\<close>

definition one_day :: "int \<Rightarrow> int \<Rightarrow> store" where
  "one_day tmin tmax =
     \<lparr>station_names = [],
      station_days = [((''USW00014837'', ''2023-07-01''), (tmin, tmax))],
      reachable = 3\<rparr>"

text \<open>A store with two recorded days of one station.\<close>

definition summer :: store where
  "summer =
     \<lparr>station_names = [],
      station_days = [((''USW00014837'', ''2023-07-01''), (18, 31)),
                      ((''USW00014837'', ''2023-07-02''), (19, 28))],
      reachable = 3\<rparr>"

text \<open>The calls that set up the schema, in the order of the constructor.\<close>

definition bootstrap :: "env \<Rightarrow> action list" where
  "bootstrap E =
     [Connect (contact_points (project E)) 30, Execute drop_keyspace, Execute create_keyspace,
      SetKeyspace ''weather'', Execute create_type, Execute create_table]"

text \<open>The calls that the seed loop makes.\<close>

fun seed_action :: "action \<Rightarrow> bool" where
  "seed_action (Prepare q) = (q = InsertName)"
| "seed_action (ExecuteSeed a b) = True"
| "seed_action _ = False"





section \<open>The scan computes the maximum\<close>

lemma present_values_current: "present_values rows = List.map_filter current_tmax rows"
proof (induction rows)
  case Nil
  show ?case by (simp add: present_values_def List.map_filter_simps)
next
  case (Cons r rows)
  then show ?case
    by (cases r rule: current_tmax.cases)
       (simp_all add: present_values_def List.map_filter_simps)
qed

lemma scan_of_rows: "scan (of_rows rows) acc = Inr (acc_max acc (present_values rows))"
  unfolding present_values_current
  by (induction rows arbitrary: acc)
     (auto simp: List.map_filter_simps max_def split: option.splits)

lemma Max_insert_max:
  fixes m v :: int
  assumes "finite S"
  shows "Max (insert (max m v) S) = Max (insert m (insert v S))"
proof (cases "S = {}")
  case True
  then show ?thesis by simp
next
  case False
  with assms show ?thesis by (simp add: max.assoc)
qed

lemma acc_max_Some: "acc_max (Some m) vs = Some (Max (insert m (set vs)))"
  by (induction vs arbitrary: m) (simp_all add: Max_insert_max)

lemma acc_max_None: "acc_max None vs = (if vs = [] then None else Some (Max (set vs)))"
  by (cases vs) (auto simp: acc_max_Some)

lemma select_tmax_deployed: "select_tmax deployed = Some tmax_stmt"
  by (simp add: deployed_def tmax_stmt_def)

lemma refusal_july: "refusal (effective_consistency LOCAL_ONE tmax_stmt) july = None"
  by (simp add: refusal_def effective_consistency_def tmax_stmt_def july_def)

lemma execute_tmax_july:
  "execute_tmax cluster tmax_stmt station july = (Inr (of_rows (tmax_rows station july)), july)"
  by (simp add: cluster_def store_session_def refusal_july)

lemma tmax_rows_madison: "tmax_rows ''USW00014837'' july = [[IntVal 31], [IntVal 28]]"
  by (simp add: tmax_rows_def july_def)

lemma StationMax_rows:
  assumes "select_tmax self = Some stmt"
    and "execute_tmax sess stmt station s = (Inr (of_rows rows), s')"
  shows "StationMax sess self station s =
           (Inr (StationMaxReply (maximum_or_default (present_values rows)) ''''), s')"
  using assms
  by (simp add: StationMax_def scan_of_rows acc_max_None maximum_or_default_def)

text \<open>
  C2. For every station, \<open>StationMax\<close> returns the maximum over the tmax values of the
  rows that are present and readable; a row without a cell, with a null cell or with a
  cell that cannot be converted contributes nothing. When no row yields a value, and so
  when the station has no rows, the reply is tmax 0 with an empty error.
\<close>

theorem StationMax_maximum:
  assumes "select_tmax self = Some stmt"
    and "execute_tmax sess stmt station s = (Inr (of_rows rows), s')"
  shows "StationMax sess self station s =
           (Inr (StationMaxReply (maximum_or_default (present_values rows)) ''''), s')
         \<and> (present_values rows = [] \<longrightarrow>
              StationMax sess self station s = (Inr (StationMaxReply 0 ''''), s'))"
  using assms
  by (simp add: StationMax_def scan_of_rows acc_max_None maximum_or_default_def)

theorem StationMax_maximum_witness:
  "select_tmax deployed = Some tmax_stmt
   \<and> execute_tmax cluster tmax_stmt ''USW00014837'' july
       = (Inr (of_rows [[IntVal 31], [IntVal 28]]), july)
   \<and> StationMax cluster deployed ''USW00014837'' july = (Inr (StationMaxReply 31 ''''), july)"
proof -
  have b: "execute_tmax cluster tmax_stmt ''USW00014837'' july
             = (Inr (of_rows [[IntVal 31], [IntVal 28]]), july)"
    by (simp add: execute_tmax_july tmax_rows_madison)
  have c: "maximum_or_default (present_values [[IntVal 31], [IntVal 28]]) = 31"
    by (simp add: maximum_or_default_def present_values_def)
  from StationMax_maximum [OF select_tmax_deployed b] select_tmax_deployed b c
  show ?thesis by simp
qed

lemma tmax_rows_january: "tmax_rows ''USC00470273'' july = [[IntVal (-7)], [IntVal (-5)]]"
  by (simp add: tmax_rows_def july_def)

lemma tmax_rows_zero: "tmax_rows ''USC00474546'' july = [[IntVal 0]]"
  by (simp add: tmax_rows_def july_def)

lemma tmax_rows_nodata: "tmax_rows ''USC00479999'' july = []"
  by (simp add: tmax_rows_def july_def)

text \<open>
  C10. When at least one stored row of the station has a readable tmax, \<open>StationMax\<close>
  returns the true maximum of those values, also when it is negative. The default 0 comes
  only from a station without a readable value: the reply tmax 0 with an empty error is
  given exactly when there is no readable value or the true maximum is 0, and it is the
  same reply for a station without data and for any station, in any store, whose recorded
  maximum is 0.
\<close>

theorem StationMax_true_maximum:
  assumes "select_tmax self = Some stmt"
    and "execute_tmax sess stmt station s = (Inr (of_rows rows), s')"
  shows "(present_values rows \<noteq> [] \<longrightarrow>
            StationMax sess self station s
              = (Inr (StationMaxReply (Max (set (present_values rows))) ''''), s'))
         \<and> (present_values rows \<noteq> [] \<and> (\<forall>v \<in> set (present_values rows). v < 0) \<longrightarrow>
            (\<exists>t. fst (StationMax sess self station s) = Inr (StationMaxReply t '''') \<and> t < 0))
         \<and> (fst (StationMax sess self station s) = Inr (StationMaxReply 0 '''') \<longleftrightarrow>
            present_values rows = [] \<or> Max (set (present_values rows)) = 0)
         \<and> (\<forall>(sess' :: 't session) self' stmt' station' s0 rows' s1.
              present_values rows = []
              \<and> select_tmax self' = Some stmt'
              \<and> execute_tmax sess' stmt' station' s0 = (Inr (of_rows rows'), s1)
              \<and> present_values rows' \<noteq> [] \<and> Max (set (present_values rows')) = 0 \<longrightarrow>
              fst (StationMax sess' self' station' s0) = fst (StationMax sess self station s))"
proof -
  have m: "StationMax sess self station s =
             (Inr (StationMaxReply (maximum_or_default (present_values rows)) ''''), s')"
    using assms by (rule StationMax_rows)
  have c1: "present_values rows \<noteq> [] \<longrightarrow>
            StationMax sess self station s
              = (Inr (StationMaxReply (Max (set (present_values rows))) ''''), s')"
    by (simp add: m maximum_or_default_def)
  have neg: "present_values rows \<noteq> [] \<and> (\<forall>v \<in> set (present_values rows). v < 0) \<longrightarrow>
               Max (set (present_values rows)) < 0"
    by simp
  have c2: "present_values rows \<noteq> [] \<and> (\<forall>v \<in> set (present_values rows). v < 0) \<longrightarrow>
            (\<exists>t. fst (StationMax sess self station s) = Inr (StationMaxReply t '''') \<and> t < 0)"
    using neg by (simp add: m maximum_or_default_def)
  have c3: "fst (StationMax sess self station s) = Inr (StationMaxReply 0 '''') \<longleftrightarrow>
            present_values rows = [] \<or> Max (set (present_values rows)) = 0"
    by (auto simp: m maximum_or_default_def)
  have c4: "\<forall>(sess' :: 't session) self' stmt' station' s0 rows' s1.
              present_values rows = []
              \<and> select_tmax self' = Some stmt'
              \<and> execute_tmax sess' stmt' station' s0 = (Inr (of_rows rows'), s1)
              \<and> present_values rows' \<noteq> [] \<and> Max (set (present_values rows')) = 0 \<longrightarrow>
              fst (StationMax sess' self' station' s0) = fst (StationMax sess self station s)"
  proof (intro allI impI)
    fix sess' :: "'t session" and self' :: service and stmt' station' s0 rows' s1
    assume h: "present_values rows = []
              \<and> select_tmax self' = Some stmt'
              \<and> execute_tmax sess' stmt' station' s0 = (Inr (of_rows rows'), s1)
              \<and> present_values rows' \<noteq> [] \<and> Max (set (present_values rows')) = 0"
    then have "StationMax sess' self' station' s0 =
             (Inr (StationMaxReply (maximum_or_default (present_values rows')) ''''), s1)"
      by (simp add: StationMax_rows)
    with h show "fst (StationMax sess' self' station' s0) = fst (StationMax sess self station s)"
      by (simp add: m maximum_or_default_def)
  qed
  show ?thesis using c1 c2 c3 c4 by blast
qed

theorem StationMax_true_maximum_witness:
  "select_tmax deployed = Some tmax_stmt
   \<and> execute_tmax cluster tmax_stmt ''USC00470273'' july
       = (Inr (of_rows [[IntVal (-7)], [IntVal (-5)]]), july)
   \<and> present_values [[IntVal (-7)], [IntVal (-5)]] = [-7, -5]
   \<and> StationMax cluster deployed ''USC00470273'' july = (Inr (StationMaxReply (-5) ''''), july)
   \<and> execute_tmax cluster tmax_stmt ''USC00479999'' july = (Inr (of_rows []), july)
   \<and> fst (StationMax cluster deployed ''USC00479999'' july) = Inr (StationMaxReply 0 '''')
   \<and> execute_tmax cluster tmax_stmt ''USW00014837'' (one_day 0 0)
       = (Inr (of_rows [[IntVal 0]]), one_day 0 0)
   \<and> fst (StationMax cluster deployed ''USW00014837'' (one_day 0 0))
       = fst (StationMax cluster deployed ''USC00479999'' july)"
proof -
  have a: "execute_tmax cluster tmax_stmt ''USC00470273'' july
             = (Inr (of_rows [[IntVal (-7)], [IntVal (-5)]]), july)"
    by (simp add: execute_tmax_july tmax_rows_january)
  have b: "execute_tmax cluster tmax_stmt ''USC00479999'' july = (Inr (of_rows []), july)"
    by (simp add: execute_tmax_july tmax_rows_nodata)
  have c: "execute_tmax cluster tmax_stmt ''USW00014837'' (one_day 0 0)
             = (Inr (of_rows [[IntVal 0]]), one_day 0 0)"
    by (simp add: cluster_def store_session_def refusal_def effective_consistency_def
        tmax_stmt_def one_day_def tmax_rows_def)
  have v: "present_values [[IntVal (-7)], [IntVal (-5)]] = [-7, -5]"
    by (simp add: present_values_def)
  have e: "present_values [] = []"
    by (simp add: present_values_def)
  have z: "present_values [[IntVal 0]] \<noteq> [] \<and> Max (set (present_values [[IntVal 0]])) = 0"
    by (simp add: present_values_def)
  note january = StationMax_true_maximum [OF select_tmax_deployed a]
  note nodata = StationMax_true_maximum [where ?'t = store, OF select_tmax_deployed b]
  have j: "StationMax cluster deployed ''USC00470273'' july = (Inr (StationMaxReply (-5) ''''), july)"
    using january v by simp
  have n: "fst (StationMax cluster deployed ''USC00479999'' july) = Inr (StationMaxReply 0 '''')"
    using nodata e by blast
  have s: "fst (StationMax cluster deployed ''USW00014837'' (one_day 0 0))
             = fst (StationMax cluster deployed ''USC00479999'' july)"
    using nodata e z select_tmax_deployed c by blast
  show ?thesis using select_tmax_deployed a b c v j n s by simp
qed

lemma record_error_unavailable:
  "unavailable_outcome e \<Longrightarrow> record_error e = Inr (RecordTempsReply ''unavailable'')"
  by (cases e) simp_all

lemma max_error_unavailable:
  "unavailable_outcome e \<Longrightarrow> max_error e = Inr (StationMaxReply 0 ''unavailable'')"
  by (cases e) simp_all

text \<open>
  C3. When a call ends with the unavailable outcome (\<open>cassandra.Unavailable\<close>, or
  \<open>NoHostAvailable\<close> when no replica can be reached), \<open>RecordTemps\<close> replies with the
  error \<open>unavailable\<close> and \<open>StationMax\<close> with tmax 0 and the error \<open>unavailable\<close>, also
  when the outcome arrives while the rows are iterated. The state returned is the one left
  by the single call to the store: nothing is tried again.
\<close>

theorem unavailable_is_reported:
  assumes "unavailable_outcome e"
  shows "(execute_insert sess (insert_temp self) station date (tmin, tmax) s = (Some e, s') \<longrightarrow>
            RecordTemps sess self station date tmin tmax s
              = (Inr (RecordTempsReply ''unavailable''), s'))
         \<and> (select_tmax self = Some stmt \<and> execute_tmax sess stmt station s = (Inl e, s') \<longrightarrow>
            StationMax sess self station s = (Inr (StationMaxReply 0 ''unavailable''), s'))
         \<and> (select_tmax self = Some stmt \<and> execute_tmax sess stmt station s = (Inr rows, s')
              \<and> scan rows None = Inl e \<longrightarrow>
            StationMax sess self station s = (Inr (StationMaxReply 0 ''unavailable''), s'))"
  using assms
  by (simp add: RecordTemps_def StationMax_def record_error_unavailable max_error_unavailable)

lemma refusal_two:
  "refusal (effective_consistency LOCAL_ONE tmax_stmt) (july\<lparr>reachable := 2\<rparr>)
     = Some (Unavailable (Text ''Cannot achieve consistency level''))"
  by (simp add: refusal_def effective_consistency_def tmax_stmt_def)

theorem unavailable_is_reported_witness:
  "unavailable_outcome (Unavailable (Text ''Cannot achieve consistency level''))
   \<and> execute_insert (canned (Some (Unavailable (Text ''Cannot achieve consistency level'')))
          (Inr None) (Inr second_page_lost))
        (insert_temp deployed) ''USW00014837'' ''2023-07-03'' (17, 30) ()
       = (Some (Unavailable (Text ''Cannot achieve consistency level'')), ())
   \<and> RecordTemps (canned (Some (Unavailable (Text ''Cannot achieve consistency level'')))
          (Inr None) (Inr second_page_lost))
        deployed ''USW00014837'' ''2023-07-03'' 17 30 ()
       = (Inr (RecordTempsReply ''unavailable''), ())
   \<and> select_tmax deployed = Some tmax_stmt
   \<and> execute_tmax cluster tmax_stmt ''USW00014837'' (july\<lparr>reachable := 2\<rparr>)
       = (Inl (Unavailable (Text ''Cannot achieve consistency level'')), july\<lparr>reachable := 2\<rparr>)
   \<and> StationMax cluster deployed ''USW00014837'' (july\<lparr>reachable := 2\<rparr>)
       = (Inr (StationMaxReply 0 ''unavailable''), july\<lparr>reachable := 2\<rparr>)
   \<and> scan second_page_lost None = Inl (Unavailable (Text ''Cannot achieve consistency level''))
   \<and> StationMax (canned (Some (Unavailable (Text ''Cannot achieve consistency level'')))
          (Inr None) (Inr second_page_lost))
        deployed ''USW00014837'' ()
       = (Inr (StationMaxReply 0 ''unavailable''), ())"
proof -
  let ?e = "Unavailable (Text ''Cannot achieve consistency level'')"
  let ?c = "canned (Some ?e) (Inr None) (Inr second_page_lost)"
  have u: "unavailable_outcome ?e" by simp
  have a: "execute_insert ?c (insert_temp deployed) ''USW00014837'' ''2023-07-03'' (17, 30) ()
             = (Some ?e, ())"
    by (simp add: canned_def)
  have b: "execute_tmax cluster tmax_stmt ''USW00014837'' (july\<lparr>reachable := 2\<rparr>)
             = (Inl ?e, july\<lparr>reachable := 2\<rparr>)"
    by (simp add: cluster_def store_session_def refusal_two)
  have c: "execute_tmax ?c tmax_stmt ''USW00014837'' () = (Inr second_page_lost, ())"
    by (simp add: canned_def)
  have d: "scan second_page_lost None = Inl ?e"
    by (simp add: second_page_lost_def)
  from unavailable_is_reported [OF u, of ?c deployed "''USW00014837''" "''2023-07-03''" 17 30
          "()" "()" tmax_stmt second_page_lost]
       unavailable_is_reported [OF u, of cluster deployed "''USW00014837''" "''2023-07-03''" 17 30
          "july\<lparr>reachable := 2\<rparr>" "july\<lparr>reachable := 2\<rparr>" tmax_stmt End]
       u a b c d select_tmax_deployed
  show ?thesis by simp
qed

text \<open>
  C7. When the name lookup yields no row, a row whose name is null or an empty name,
  \<open>StationName\<close> returns an empty name and the message
  \<open>station not found or name missing\<close>, which is neither empty nor \<open>unavailable\<close>; when
  it yields a name that is not empty, that name is returned with an empty error.
\<close>

theorem StationName_not_found:
  assumes "execute_name sess (select_name self) station s = (Inr r, s')"
  shows "(r = None \<or> r = Some None \<or> r = Some (Some '''') \<longrightarrow>
            (\<exists>reply. StationName sess self station s = (Inr reply, s')
               \<and> sn_name reply = ''''
               \<and> sn_error reply = ''station not found or name missing''
               \<and> sn_error reply \<noteq> ''''
               \<and> sn_error reply \<noteq> ''unavailable''))
         \<and> (\<forall>n. r = Some (Some n) \<and> n \<noteq> '''' \<longrightarrow>
            StationName sess self station s = (Inr (StationNameReply n ''''), s'))"
  using assms by (auto simp: StationName_def)

lemma refusal_name_july: "refusal (effective_consistency LOCAL_ONE (select_name deployed)) july = None"
  by (simp add: refusal_def effective_consistency_def deployed_def july_def)

lemma name_row_madison: "name_row ''USW00014837'' july = Some (Some ''MADISON DANE RGNL AP'')"
  by (simp add: name_row_def july_def)

lemma name_row_absent: "name_row ''USC00479999'' july = None"
  by (simp add: name_row_def july_def)

lemma name_row_unnamed: "name_row ''USC00474546'' july = Some None"
  by (simp add: name_row_def july_def)

lemma execute_name_july:
  "execute_name cluster (select_name deployed) station july = (Inr (name_row station july), july)"
  by (simp add: cluster_def store_session_def refusal_name_july)

theorem StationName_not_found_witness:
  "execute_name cluster (select_name deployed) ''USC00479999'' july = (Inr None, july)
   \<and> StationName cluster deployed ''USC00479999'' july
       = (Inr (StationNameReply '''' ''station not found or name missing''), july)
   \<and> execute_name cluster (select_name deployed) ''USW00014837'' july
       = (Inr (Some (Some ''MADISON DANE RGNL AP'')), july)
   \<and> StationName cluster deployed ''USW00014837'' july
       = (Inr (StationNameReply ''MADISON DANE RGNL AP'' ''''), july)"
proof -
  have a: "execute_name cluster (select_name deployed) ''USC00479999'' july = (Inr None, july)"
    by (simp add: execute_name_july name_row_absent)
  have b: "execute_name cluster (select_name deployed) ''USW00014837'' july
             = (Inr (Some (Some ''MADISON DANE RGNL AP'')), july)"
    by (simp add: execute_name_july name_row_madison)
  have "StationName cluster deployed ''USC00479999'' july
          = (Inr (StationNameReply '''' ''station not found or name missing''), july)"
    using StationName_not_found [OF a] by (auto simp: StationNameReply.expand)
  moreover have "StationName cluster deployed ''USW00014837'' july
          = (Inr (StationNameReply ''MADISON DANE RGNL AP'' ''''), july)"
    using StationName_not_found [OF b] by simp
  ultimately show ?thesis using a b by simp
qed

text \<open>In the store, a station with neither a name nor a row is such a lookup.\<close>

lemma StationName_absent_station:
  assumes "map_of (station_names \<sigma>) station = None"
    and "filter (\<lambda>(k, r). fst k = station) (station_days \<sigma>) = []"
    and "0 < reachable \<sigma>"
  shows "StationName (store_session accepts d) deployed station \<sigma>
           = (Inr (StationNameReply '''' ''station not found or name missing''), \<sigma>)"
  using assms
  by (simp add: StationName_def store_session_def refusal_def effective_consistency_def
      deployed_def name_row_def)

section \<open>Recording and reading back through the store\<close>

lemma update_twice: "AList.update k v (AList.update k v al) = AList.update k v al"
  by (induction al) auto

lemma RecordTemps_store:
  "RecordTemps (store_session accepts d) self station date tmin tmax \<sigma> =
     (if \<not> accepts station date (tmin, tmax) then (Inr (RecordTempsReply ''invalid parameter''), \<sigma>)
      else case refusal (effective_consistency d (insert_temp self)) \<sigma> of
             Some e \<Rightarrow> (record_error e, \<sigma>)
           | None \<Rightarrow> (Inr (RecordTempsReply ''''),
                      \<sigma>\<lparr>station_days := AList.update (station, date) (tmin, tmax) (station_days \<sigma>)\<rparr>))"
  by (simp add: RecordTemps_def store_session_def error_reply_def split: option.splits)

lemma refusal_days [simp]: "refusal c (\<sigma>\<lparr>station_days := x\<rparr>) = refusal c \<sigma>"
  by (simp add: refusal_def)

lemma refusal_three: "reachable \<sigma> = 3 \<Longrightarrow> refusal (effective_consistency LOCAL_ONE (insert_temp deployed)) \<sigma> = None"
  "reachable \<sigma> = 3 \<Longrightarrow> refusal (effective_consistency LOCAL_ONE tmax_stmt) \<sigma> = None"
  by (simp_all add: refusal_def effective_consistency_def deployed_def tmax_stmt_def)

lemma RecordTemps_cluster:
  "reachable \<sigma> = 3 \<Longrightarrow>
   RecordTemps cluster deployed station date tmin tmax \<sigma> =
     (Inr (RecordTempsReply ''''),
      \<sigma>\<lparr>station_days := AList.update (station, date) (tmin, tmax) (station_days \<sigma>)\<rparr>)"
  by (simp add: cluster_def RecordTemps_store refusal_three)

lemma StationMax_cluster:
  "reachable \<sigma> = 3 \<Longrightarrow>
   StationMax cluster deployed station \<sigma> =
     (Inr (StationMaxReply (maximum_or_default (present_values (tmax_rows station \<sigma>))) ''''), \<sigma>)"
  by (simp add: cluster_def StationMax_def store_session_def select_tmax_deployed refusal_three
      scan_of_rows acc_max_None maximum_or_default_def)

lemma first_write:
  "RecordTemps cluster deployed ''USW00014837'' ''2023-07-01'' 18 31 (fresh 3)
     = (Inr (RecordTempsReply ''''), one_day 18 31)"
  by (simp add: RecordTemps_cluster fresh_def one_day_def)

lemma second_write:
  "RecordTemps cluster deployed ''USW00014837'' ''2023-07-01'' 19 10 (one_day 18 31)
     = (Inr (RecordTempsReply ''''), one_day 19 10)"
  by (simp add: RecordTemps_cluster one_day_def)

lemma max_after_overwrite:
  "StationMax cluster deployed ''USW00014837'' (one_day 19 10)
     = (Inr (StationMaxReply 10 ''''), one_day 19 10)"
  by (simp add: StationMax_cluster one_day_def tmax_rows_def present_values_def maximum_or_default_def)

lemma refusal_message: "refusal c \<sigma> = Some e \<Longrightarrow> unavailable_outcome e"
  by (auto simp: refusal_def split: if_splits)

lemma record_error_refusal:
  "refusal c \<sigma> = Some e \<Longrightarrow> record_error e = Inr (RecordTempsReply ''unavailable'')"
  by (auto simp: refusal_def split: if_splits)

lemma recorded_day:
  assumes "RecordTemps (store_session accepts d) self station date tmin tmax \<sigma>
             = (Inr (RecordTempsReply ''''), \<sigma>')"
  shows "map_of (station_days \<sigma>') (station, date) = Some (tmin, tmax)"
  using assms
  by (auto simp: RecordTemps_store update_conv' record_error_refusal
           split: if_splits option.splits)

lemma happen_keeps_day:
  assumes "\<not> writes_key k ev"
  shows "map_of (station_days (happen (store_session accepts d) self ev \<sigma>)) k = map_of (station_days \<sigma>) k"
  using assms
  by (cases ev) (auto simp: RecordTemps_store update_conv' split: option.splits)

lemma fold_happen_keeps_day:
  assumes "\<forall>ev \<in> set evs. \<not> writes_key k ev"
  shows "map_of (station_days (fold (happen (store_session accepts d) self) evs \<sigma>)) k
           = map_of (station_days \<sigma>) k"
  using assms by (induction evs arbitrary: \<sigma>) (simp_all add: happen_keeps_day)

lemma day_in_rows:
  assumes "map_of (station_days \<sigma>) (station, date) = Some (tmin, tmax)"
  shows "tmax \<in> set (present_values (tmax_rows station \<sigma>))"
proof -
  let ?rs = "map (\<lambda>(k, r). [IntVal (snd r)]) (filter (\<lambda>(k, r). fst k = station) (station_days \<sigma>))"
  from assms have "((station, date), (tmin, tmax)) \<in> set (station_days \<sigma>)"
    by (rule map_of_SomeD)
  then have "((station, date), (tmin, tmax)) \<in> set (filter (\<lambda>(k, r). fst k = station) (station_days \<sigma>))"
    by simp
  then have f: "[IntVal tmax] \<in> set ?rs"
    by force
  then have "0 < length ?rs" by (rule length_pos_if_in_set)
  then have "?rs \<noteq> []" by simp
  then have "tmax_rows station \<sigma> = ?rs"
    by (simp add: tmax_rows_def)
  with f have "[IntVal tmax] \<in> set (tmax_rows station \<sigma>)" by simp
  then show ?thesis
    by (force simp: present_values_def)
qed

lemma StationMax_store:
  "fst (StationMax (store_session accepts d) self station \<sigma>) =
     (case select_tmax self of
        None \<Rightarrow> Inr (StationMaxReply 0 ''Server error: select statement not prepared'')
      | Some stmt \<Rightarrow>
          (case refusal (effective_consistency d stmt) \<sigma> of
             Some e \<Rightarrow> max_error e
           | None \<Rightarrow>
               Inr (StationMaxReply (maximum_or_default (present_values (tmax_rows station \<sigma>))) '''')))"
  by (simp add: StationMax_def store_session_def scan_of_rows acc_max_None maximum_or_default_def
           split: option.splits)

lemma max_error_refusal:
  "refusal c \<sigma> = Some e \<Longrightarrow> max_error e = Inr (StationMaxReply 0 ''unavailable'')"
  by (auto simp: refusal_def split: if_splits)

lemma StationMax_store_ge:
  assumes "map_of (station_days \<sigma>) (station, date) = Some (tmin, tmax)"
    and "fst (StationMax (store_session accepts d) self station \<sigma>) = Inr reply"
    and "sm_error reply = ''''"
  shows "tmax \<le> sm_tmax reply"
proof -
  let ?vs = "present_values (tmax_rows station \<sigma>)"
  have v: "tmax \<in> set ?vs" using assms(1) by (rule day_in_rows)
  then have ne: "?vs \<noteq> []" by auto
  have "reply = StationMaxReply (Max (set ?vs)) ''''"
    using assms(2,3) ne
    by (auto simp: StationMax_store maximum_or_default_def max_error_refusal split: option.splits)
  then show ?thesis using v by simp
qed

text \<open>
  C6. \<open>RecordTemps\<close> is idempotent for \<open>StationMax\<close>: the identical call made twice in
  succession leaves the same reply and the same store as made once, so every following
  \<open>StationMax\<close> gives the same result.
\<close>

theorem RecordTemps_idempotent:
  "RecordTemps (store_session accepts d) self station date tmin tmax
      (snd (RecordTemps (store_session accepts d) self station date tmin tmax \<sigma>))
     = RecordTemps (store_session accepts d) self station date tmin tmax \<sigma>
   \<and> StationMax (store_session accepts d) self st
        (snd (RecordTemps (store_session accepts d) self station date tmin tmax
           (snd (RecordTemps (store_session accepts d) self station date tmin tmax \<sigma>))))
     = StationMax (store_session accepts d) self st
        (snd (RecordTemps (store_session accepts d) self station date tmin tmax \<sigma>))"
proof -
  have "RecordTemps (store_session accepts d) self station date tmin tmax
      (snd (RecordTemps (store_session accepts d) self station date tmin tmax \<sigma>))
     = RecordTemps (store_session accepts d) self station date tmin tmax \<sigma>"
    by (simp add: RecordTemps_store update_twice split: option.splits)
  then show ?thesis by simp
qed

theorem RecordTemps_idempotent_witness:
  "StationMax cluster deployed ''USW00014837''
     (snd (RecordTemps cluster deployed ''USW00014837'' ''2023-07-03'' 20 35
        (snd (RecordTemps cluster deployed ''USW00014837'' ''2023-07-03'' 20 35 july))))
   = StationMax cluster deployed ''USW00014837''
     (snd (RecordTemps cluster deployed ''USW00014837'' ''2023-07-03'' 20 35 july))
   \<and> fst (StationMax cluster deployed ''USW00014837''
     (snd (RecordTemps cluster deployed ''USW00014837'' ''2023-07-03'' 20 35 july)))
     = Inr (StationMaxReply 35 '''')"
proof -
  have r: "reachable july = 3" by (simp add: july_def)
  have "fst (StationMax cluster deployed ''USW00014837''
     (snd (RecordTemps cluster deployed ''USW00014837'' ''2023-07-03'' 20 35 july)))
     = Inr (StationMaxReply 35 '''')"
    by (simp add: RecordTemps_cluster [OF r] StationMax_cluster r)
       (simp add: july_def tmax_rows_def present_values_def maximum_or_default_def)
  with RecordTemps_idempotent [of "\<lambda>station date r. True" LOCAL_ONE deployed
         "''USW00014837''" "''2023-07-03''" 20 35 july "''USW00014837''"]
  show ?thesis by (simp add: cluster_def)
qed

text \<open>
  C5, as stated, fails: a later \<open>RecordTemps\<close> for the same station and date replaces the
  record, and \<open>StationMax\<close> then reports 10 although 31 had been recorded.
\<close>

theorem overwrite_lowers_maximum:
  "RecordTemps cluster deployed ''USW00014837'' ''2023-07-01'' 18 31 (fresh 3)
     = (Inr (RecordTempsReply ''''), one_day 18 31)
   \<and> RecordTemps cluster deployed ''USW00014837'' ''2023-07-01'' 19 10 (one_day 18 31)
     = (Inr (RecordTempsReply ''''), one_day 19 10)
   \<and> StationMax cluster deployed ''USW00014837'' (one_day 19 10)
     = (Inr (StationMaxReply 10 ''''), one_day 19 10)
   \<and> \<not> 31 \<le> sm_tmax (StationMaxReply 10 '''')"
  by (simp add: first_write second_write max_after_overwrite)

text \<open>
  C5, amended. After a \<open>RecordTemps\<close> that succeeded, a \<open>StationMax\<close> of that station
  that succeeds returns a tmax at least the recorded one, whatever else is recorded in
  between and however the reachable replicas change, as long as no later call writes the
  same station and date.
\<close>

theorem StationMax_covers_recorded:
  assumes "RecordTemps (store_session accepts d) self station date tmin tmax \<sigma>
             = (Inr (RecordTempsReply ''''), \<sigma>')"
    and "\<forall>ev \<in> set later. \<not> writes_key (station, date) ev"
    and "fst (StationMax (store_session accepts d) self station
            (fold (happen (store_session accepts d) self) later \<sigma>')) = Inr reply"
    and "sm_error reply = ''''"
  shows "tmax \<le> sm_tmax reply"
proof -
  have "map_of (station_days \<sigma>') (station, date) = Some (tmin, tmax)"
    using assms(1) by (rule recorded_day)
  then have "map_of (station_days (fold (happen (store_session accepts d) self) later \<sigma>')) (station, date)
               = Some (tmin, tmax)"
    using assms(2) by (simp add: fold_happen_keeps_day)
  then show ?thesis using assms(3,4) by (rule StationMax_store_ge)
qed

lemma later_days:
  "fold (happen cluster deployed) [Record ''USW00014837'' ''2023-07-02'' 19 28, Reach 2, Reach 3] (one_day 18 31)
     = summer"
  by (simp add: RecordTemps_cluster one_day_def summer_def)

lemma max_summer:
  "StationMax cluster deployed ''USW00014837'' summer = (Inr (StationMaxReply 31 ''''), summer)"
  by (simp add: StationMax_cluster summer_def tmax_rows_def present_values_def maximum_or_default_def)

theorem StationMax_covers_recorded_witness:
  "RecordTemps cluster deployed ''USW00014837'' ''2023-07-01'' 18 31 (fresh 3)
     = (Inr (RecordTempsReply ''''), one_day 18 31)
   \<and> \<not> writes_key (''USW00014837'', ''2023-07-01'') (Record ''USW00014837'' ''2023-07-02'' 19 28)
   \<and> \<not> writes_key (''USW00014837'', ''2023-07-01'') (Reach 2)
   \<and> \<not> writes_key (''USW00014837'', ''2023-07-01'') (Reach 3)
   \<and> StationMax cluster deployed ''USW00014837''
        (fold (happen cluster deployed) [Record ''USW00014837'' ''2023-07-02'' 19 28, Reach 2, Reach 3]
           (one_day 18 31))
      = (Inr (StationMaxReply 31 ''''), summer)
   \<and> sm_error (StationMaxReply 31 '''') = ''''
   \<and> 31 \<le> sm_tmax (StationMaxReply 31 '''')"
proof -
  let ?later = "[Record ''USW00014837'' ''2023-07-02'' 19 28, Reach 2, Reach 3]"
  have a: "RecordTemps (store_session (\<lambda>station date r. True) LOCAL_ONE) deployed
             ''USW00014837'' ''2023-07-01'' 18 31 (fresh 3) = (Inr (RecordTempsReply ''''), one_day 18 31)"
    using first_write by (simp add: cluster_def)
  have b: "\<forall>ev \<in> set ?later. \<not> writes_key (''USW00014837'', ''2023-07-01'') ev"
    by simp
  have c: "StationMax cluster deployed ''USW00014837'' (fold (happen cluster deployed) ?later (one_day 18 31))
             = (Inr (StationMaxReply 31 ''''), summer)"
    by (simp only: later_days max_summer)
  then have d: "fst (StationMax (store_session (\<lambda>station date r. True) LOCAL_ONE) deployed
             ''USW00014837''
             (fold (happen (store_session (\<lambda>station date r. True) LOCAL_ONE) deployed) ?later
                (one_day 18 31))) = Inr (StationMaxReply 31 '''')"
    by (simp add: cluster_def)
  have e: "sm_error (StationMaxReply 31 '''') = ''''" by simp
  from StationMax_covers_recorded [OF a b d e] first_write b c
  show ?thesis by (simp add: cluster_def)
qed

section \<open>Start-up\<close>

lemma seed_statement:
  "fst (seed E rows p stmt log) = stmt
   \<or> fst (seed E rows p stmt log) = Some \<lparr>query = InsertName, consistency_level = None\<rparr>"
proof (induction rows arbitrary: p stmt log)
  case Nil
  show ?case by simp
next
  case (Cons r rows)
  show ?case
  proof (cases "\<not> p \<and> prepare_result E InsertName = None")
    case True
    with Cons [of True "Some \<lparr>query = InsertName, consistency_level = None\<rparr>"
        "log @ [Prepare InsertName, ExecuteSeed (strip (row_id r)) (strip (row_name r))]"]
    show ?thesis by (auto simp: Let_def)
  next
    case False
    with Cons [of p stmt "log @ [Prepare InsertName]"]
         Cons [of p stmt "log @ [ExecuteSeed (strip (row_id r)) (strip (row_name r))]"]
    show ?thesis by (auto simp: Let_def split: option.splits)
  qed
qed

lemma seed_log:
  "\<exists>ext. snd (seed E rows p stmt log) = log @ ext \<and> (\<forall>a \<in> set ext. seed_action a)"
proof (induction rows arbitrary: p stmt log)
  case Nil
  show ?case by simp
next
  case (Cons r rows)
  let ?x = "ExecuteSeed (strip (row_id r)) (strip (row_name r))"
  show ?case
  proof (cases p)
    case True
    from Cons [of p stmt "log @ [?x]"] obtain ext where
      "snd (seed E rows p stmt (log @ [?x])) = (log @ [?x]) @ ext" "\<forall>a \<in> set ext. seed_action a"
      by blast
    with True have "snd (seed E (r # rows) p stmt log) = log @ (?x # ext) \<and> (\<forall>a \<in> set (?x # ext). seed_action a)"
      by (simp add: Let_def)
    then show ?thesis by blast
  next
    case False
    show ?thesis
    proof (cases "prepare_result E InsertName")
      case None
      let ?st = "Some \<lparr>query = InsertName, consistency_level = None\<rparr>"
      from Cons [of True ?st "log @ [Prepare InsertName, ?x]"] obtain ext where
        "snd (seed E rows True ?st (log @ [Prepare InsertName, ?x])) = (log @ [Prepare InsertName, ?x]) @ ext"
        "\<forall>a \<in> set ext. seed_action a"
        by blast
      with False None have "snd (seed E (r # rows) p stmt log) = log @ (Prepare InsertName # ?x # ext)
          \<and> (\<forall>a \<in> set (Prepare InsertName # ?x # ext). seed_action a)"
        by (simp add: Let_def)
      then show ?thesis by blast
    next
      case (Some e)
      from Cons [of p stmt "log @ [Prepare InsertName]"] obtain ext where
        "snd (seed E rows p stmt (log @ [Prepare InsertName])) = (log @ [Prepare InsertName]) @ ext"
        "\<forall>a \<in> set ext. seed_action a"
        by blast
      with False Some have "snd (seed E (r # rows) p stmt log) = log @ (Prepare InsertName # ext)
          \<and> (\<forall>a \<in> set (Prepare InsertName # ext). seed_action a)"
        by (simp add: Let_def)
      then show ?thesis by blast
    qed
  qed
qed

lemma init_success:
  assumes "init E = (Inr self, log)"
  shows "connect_result E = None \<and> execute_result E drop_keyspace = None
     \<and> execute_result E create_keyspace = None \<and> set_keyspace_result E = None
     \<and> execute_result E create_type = None \<and> execute_result E create_table = None
     \<and> prepare_result E InsertRecord = None \<and> prepare_result E SelectName = None
     \<and> prepare_result E SelectTmax = None
     \<and> (\<exists>wi. spark_result E = Inr wi
          \<and> self = \<lparr>init_insert_name = fst (seed E wi False None (bootstrap E @ [SparkCollect])),
                     insert_temp = \<lparr>query = InsertRecord, consistency_level = Some ONE\<rparr>,
                     select_name = \<lparr>query = SelectName, consistency_level = Some ONE\<rparr>,
                     select_tmax = Some \<lparr>query = SelectTmax, consistency_level = Some THREE\<rparr>\<rparr>
          \<and> log = snd (seed E wi False None (bootstrap E @ [SparkCollect]))
                  @ [Prepare InsertRecord, Prepare SelectName, Prepare SelectTmax, Print ''Server started''])"
  using assms
  by (auto simp: init_def attempt_def prepare_rpc_def bootstrap_def
           split: option.splits sum.splits prod.splits pystr.splits)

lemma init_failure:
  assumes "init E = (Inl e, log)"
  shows "connect_result E \<noteq> None \<or> execute_result E drop_keyspace \<noteq> None
     \<or> execute_result E create_keyspace \<noteq> None \<or> set_keyspace_result E \<noteq> None
     \<or> execute_result E create_type \<noteq> None \<or> execute_result E create_table \<noteq> None
     \<or> (\<exists>x. spark_result E = Inl x)
     \<or> prepare_result E InsertRecord \<noteq> None \<or> prepare_result E SelectName \<noteq> None
     \<or> prepare_result E SelectTmax \<noteq> None"
  using assms
  by (auto simp: init_def attempt_def prepare_rpc_def
           split: option.splits sum.splits prod.splits pystr.splits)

lemma init_aborts:
  assumes "connect_result E \<noteq> None \<or> execute_result E drop_keyspace \<noteq> None
     \<or> execute_result E create_keyspace \<noteq> None \<or> set_keyspace_result E \<noteq> None
     \<or> execute_result E create_type \<noteq> None \<or> execute_result E create_table \<noteq> None
     \<or> prepare_result E InsertRecord \<noteq> None \<or> prepare_result E SelectName \<noteq> None
     \<or> prepare_result E SelectTmax \<noteq> None"
  shows "\<exists>e. fst (init E) = Inl e"
proof (cases "init E")
  case (Pair r log)
  show ?thesis
  proof (cases r)
    case (Inl e)
    with Pair show ?thesis by simp
  next
    case (Inr self)
    with Pair have "init E = (Inr self, log)" by simp
    from init_success [OF this] assms show ?thesis by blast
  qed
qed

lemma seed_log_member:
  assumes "seed E wi p st log = (x, log')" and "a \<in> set log'"
  shows "a \<in> set log \<or> seed_action a"
proof -
  from seed_log [of E wi p st log] obtain ext where
    "snd (seed E wi p st log) = log @ ext" "\<forall>a \<in> set ext. seed_action a" by blast
  with assms show ?thesis by auto
qed

lemma seed_log_prefix:
  assumes "seed E wi p st log = (x, log')"
  shows "take (length log) log' = log"
proof -
  from seed_log [of E wi p st log] obtain ext where
    "snd (seed E wi p st log) = log @ ext" by blast
  with assms show ?thesis by simp
qed

lemma init_no_start: "StartServer p n \<notin> set (snd (init E))"
  by (auto simp: init_def attempt_def prepare_rpc_def
           split: option.splits sum.splits prod.splits pystr.splits dest: seed_log_member)

lemma init_started:
  assumes "Print ''Server started'' \<in> set (snd (init E))"
  shows "\<exists>self. fst (init E) = Inr self"
  using assms
  by (auto simp: init_def attempt_def prepare_rpc_def
           split: option.splits sum.splits prod.splits pystr.splits dest: seed_log_member)

lemma init_bootstrap_first:
  assumes "init E = (Inr self, log)"
  shows "take 6 log = bootstrap E"
proof -
  from init_success [OF assms] obtain wi where
    l: "log = snd (seed E wi False None (bootstrap E @ [SparkCollect]))
                  @ [Prepare InsertRecord, Prepare SelectName, Prepare SelectTmax, Print ''Server started'']"
    by blast
  obtain x log' where s: "seed E wi False None (bootstrap E @ [SparkCollect]) = (x, log')"
    by (cases "seed E wi False None (bootstrap E @ [SparkCollect])")
  from seed_log [of E wi False None "bootstrap E @ [SparkCollect]"] s obtain ext where
    "log' = (bootstrap E @ [SparkCollect]) @ ext" by auto
  with l s show ?thesis by (simp add: bootstrap_def)
qed

lemma seed_take:
  assumes "n \<le> length log"
  shows "take n (snd (seed E wi p st log) @ rest) = take n log"
proof -
  from seed_log [of E wi p st log] obtain ext where
    "snd (seed E wi p st log) = log @ ext" by blast
  with assms show ?thesis by simp
qed

lemma init_drop_first:
  assumes "connect_result E = None"
  shows "take 2 (snd (init E)) = [Connect (contact_points (project E)) 30, Execute drop_keyspace]"
  using assms
  by (simp add: init_def attempt_def prepare_rpc_def split_beta seed_take
           del: take_append split: option.splits sum.splits pystr.splits)

lemma init_healthy: "fst (init healthy_env) = Inr deployed"
  by (simp add: init_def attempt_def prepare_rpc_def healthy_env_def deployed_def)

lemma serve_seed_prepare_fails:
  "serve seed_prepare_fails =
     (Serving (deployed\<lparr>init_insert_name := None\<rparr>),
      bootstrap seed_prepare_fails @
      [SparkCollect, Prepare InsertName, Prepare InsertRecord, Prepare SelectName, Prepare SelectTmax,
       Print ''Server started'', StartServer 5440 9])"
  by (simp add: serve_def init_def attempt_def prepare_rpc_def seed_prepare_fails_def healthy_env_def
      deployed_def bootstrap_def)

lemma serve_init:
  "fst (serve E) = (case fst (init E) of Inl e \<Rightarrow> Aborted e | Inr self \<Rightarrow> Serving self)"
  "snd (serve E) = (case fst (init E) of Inl e \<Rightarrow> snd (init E)
                     | Inr self \<Rightarrow> snd (init E) @ [StartServer 5440 9])"
  by (simp_all add: serve_def split: prod.splits sum.splits)

lemma serve_healthy: "fst (serve healthy_env) = Serving deployed"
  by (simp add: serve_init init_healthy)

lemma serve_create_table_fails:
  "fst (serve create_table_fails) = Aborted (OtherException (Text ''Operation timed out''))"
  by (simp add: serve_def init_def attempt_def create_table_fails_def healthy_env_def
      drop_keyspace_def create_keyspace_def create_type_def create_table_def)

text \<open>
  C1, as stated, fails for the seed insert: the constructor never assigns a consistency
  level to that statement, so it runs at the session's default, whatever that is.
\<close>

theorem seed_insert_level_unset:
  "fst (init healthy_env) = Inr deployed
   \<and> init_insert_name deployed = Some \<lparr>query = InsertName, consistency_level = None\<rparr>
   \<and> consistency_level \<lparr>query = InsertName, consistency_level = None\<rparr> \<noteq> Some ONE
   \<and> effective_consistency LOCAL_ONE \<lparr>query = InsertName, consistency_level = None\<rparr> \<noteq> ONE"
  by (simp add: init_healthy) (simp add: deployed_def effective_consistency_def)

text \<open>
  C1, amended. After a start-up that succeeds, the record insert and the name read carry
  the level \<open>ONE\<close> and the tmax read the level \<open>THREE\<close>, which is the replication factor
  of the keyspace that was created; they run at these levels under every session default.
  The seed insert, when it was prepared, carries no level and runs at the session default.
\<close>

theorem consistency_policy:
  assumes "init E = (Inr self, log)"
  shows "consistency_level (insert_temp self) = Some ONE
     \<and> consistency_level (select_name self) = Some ONE
     \<and> (\<exists>stmt. select_tmax self = Some stmt \<and> consistency_level stmt = Some THREE
           \<and> (\<forall>d. effective_consistency d stmt = THREE))
     \<and> (\<forall>d. effective_consistency d (insert_temp self) = ONE
           \<and> effective_consistency d (select_name self) = ONE)
     \<and> replicas_required THREE = 3
     \<and> Execute (CreateKeyspace ''weather'' ''SimpleStrategy'' 3) \<in> set log
     \<and> (\<forall>stmt. init_insert_name self = Some stmt \<longrightarrow>
           consistency_level stmt = None \<and> (\<forall>d. effective_consistency d stmt = d))"
proof -
  from init_success [OF assms] obtain wi where
    self: "self = \<lparr>init_insert_name = fst (seed E wi False None (bootstrap E @ [SparkCollect])),
                     insert_temp = \<lparr>query = InsertRecord, consistency_level = Some ONE\<rparr>,
                     select_name = \<lparr>query = SelectName, consistency_level = Some ONE\<rparr>,
                     select_tmax = Some \<lparr>query = SelectTmax, consistency_level = Some THREE\<rparr>\<rparr>"
    by blast
  have k: "Execute (CreateKeyspace ''weather'' ''SimpleStrategy'' 3) \<in> set (take 6 log)"
    by (simp add: init_bootstrap_first [OF assms] bootstrap_def create_keyspace_def)
  then have k': "Execute (CreateKeyspace ''weather'' ''SimpleStrategy'' 3) \<in> set log"
    by (rule in_set_takeD)
  have s: "\<forall>stmt. init_insert_name self = Some stmt \<longrightarrow>
           consistency_level stmt = None \<and> (\<forall>d. effective_consistency d stmt = d)"
    using seed_statement [of E wi False None "bootstrap E @ [SparkCollect]"]
    by (auto simp: self effective_consistency_def)
  show ?thesis using k' s by (simp add: self effective_consistency_def)
qed

theorem consistency_policy_witness:
  "fst (init healthy_env) = Inr deployed
   \<and> consistency_level (insert_temp deployed) = Some ONE
   \<and> consistency_level (select_name deployed) = Some ONE
   \<and> select_tmax deployed = Some tmax_stmt \<and> consistency_level tmax_stmt = Some THREE
   \<and> Execute (CreateKeyspace ''weather'' ''SimpleStrategy'' 3) \<in> set (snd (init healthy_env))
   \<and> map_option consistency_level (init_insert_name deployed) = Some None"
proof -
  have a: "init healthy_env = (Inr deployed, snd (init healthy_env))"
    using init_healthy by (cases "init healthy_env") simp
  from consistency_policy [OF a] init_healthy select_tmax_deployed
  show ?thesis by (simp add: deployed_def tmax_stmt_def)
qed

text \<open>
  C9, as stated, fails for one statement preparation: when preparing the seed insert
  fails, the seed loop drops the failure and the process reaches the serving state.
\<close>

theorem seed_prepare_failure_is_swallowed:
  "prepare_result seed_prepare_fails InsertName = Some (OtherException (Text ''Operation timed out''))
   \<and> fst (serve seed_prepare_fails) = Serving (deployed\<lparr>init_insert_name := None\<rparr>)
   \<and> last (snd (serve seed_prepare_fails)) = StartServer 5440 9"
  by (simp add: serve_seed_prepare_fails) (simp add: seed_prepare_fails_def)

text \<open>
  C9, amended. Start-up runs, in this order and before the server is started: the drop of
  the keyspace \<open>weather\<close> (whenever the connection was made), its creation with
  \<open>SimpleStrategy\<close> and replication factor 3, the creation of the type \<open>station_record\<close>
  if absent, and the creation of the table if absent, with partition key \<open>id\<close>, clustering
  key \<open>date\<close> ascending and the column \<open>name\<close> static. When one of these schema steps or
  the preparation of one of the three request statements fails, the failure propagates:
  the process is aborted and never starts the server. (A failure to prepare the seed
  insert is dropped by the seed loop.)
\<close>

theorem startup_is_fatal:
  "(\<forall>self. fst (serve E) = Serving self \<longrightarrow>
        connect_result E = None \<and> execute_result E drop_keyspace = None
      \<and> execute_result E create_keyspace = None \<and> set_keyspace_result E = None
      \<and> execute_result E create_type = None \<and> execute_result E create_table = None
      \<and> prepare_result E InsertRecord = None \<and> prepare_result E SelectName = None
      \<and> prepare_result E SelectTmax = None
      \<and> take 6 (snd (serve E)) = bootstrap E
      \<and> last (snd (serve E)) = StartServer 5440 9)
   \<and> (execute_result E drop_keyspace \<noteq> None \<or> execute_result E create_keyspace \<noteq> None
        \<or> execute_result E create_type \<noteq> None \<or> execute_result E create_table \<noteq> None
        \<or> prepare_result E InsertRecord \<noteq> None \<or> prepare_result E SelectName \<noteq> None
        \<or> prepare_result E SelectTmax \<noteq> None \<longrightarrow>
        (\<exists>e. fst (serve E) = Aborted e)
        \<and> StartServer 5440 9 \<notin> set (snd (serve E))
        \<and> Print ''Server started'' \<notin> set (snd (serve E)))
   \<and> (connect_result E = None \<longrightarrow>
        take 2 (snd (serve E)) = [Connect (contact_points (project E)) 30, Execute drop_keyspace])
   \<and> drop_keyspace = DropKeyspaceIfExists ''weather''
   \<and> create_keyspace = CreateKeyspace ''weather'' ''SimpleStrategy'' 3
   \<and> create_type = CreateTypeIfNotExists ''station_record'' [(''tmin'', ''int''), (''tmax'', ''int'')]
   \<and> create_table = CreateTableIfNotExists stations_table
   \<and> partition_key stations_table = [''id'']
   \<and> clustering_key stations_table = [(''date'', Asc)]
   \<and> (''name'', ''text'', True) \<in> set (columns stations_table)"
proof -
  have A: "\<forall>self. fst (serve E) = Serving self \<longrightarrow>
        connect_result E = None \<and> execute_result E drop_keyspace = None
      \<and> execute_result E create_keyspace = None \<and> set_keyspace_result E = None
      \<and> execute_result E create_type = None \<and> execute_result E create_table = None
      \<and> prepare_result E InsertRecord = None \<and> prepare_result E SelectName = None
      \<and> prepare_result E SelectTmax = None
      \<and> take 6 (snd (serve E)) = bootstrap E
      \<and> last (snd (serve E)) = StartServer 5440 9"
  proof (intro allI impI)
    fix self assume s: "fst (serve E) = Serving self"
    then have fi: "fst (init E) = Inr self"
      by (simp add: serve_init split: sum.splits)
    then have i: "init E = (Inr self, snd (init E))"
      by (cases "init E") simp
    have l: "snd (serve E) = snd (init E) @ [StartServer 5440 9]"
      using fi by (simp add: serve_init)
    have b: "take 6 (snd (init E)) = bootstrap E" using i by (rule init_bootstrap_first)
    then have "length (take 6 (snd (init E))) = 6" by (simp add: bootstrap_def)
    then have "6 \<le> length (snd (init E))" by simp
    with b l have t: "take 6 (snd (serve E)) = bootstrap E" by simp
    from init_success [OF i] t l show "connect_result E = None \<and> execute_result E drop_keyspace = None
      \<and> execute_result E create_keyspace = None \<and> set_keyspace_result E = None
      \<and> execute_result E create_type = None \<and> execute_result E create_table = None
      \<and> prepare_result E InsertRecord = None \<and> prepare_result E SelectName = None
      \<and> prepare_result E SelectTmax = None
      \<and> take 6 (snd (serve E)) = bootstrap E
      \<and> last (snd (serve E)) = StartServer 5440 9"
      by simp
  qed
  have B: "execute_result E drop_keyspace \<noteq> None \<or> execute_result E create_keyspace \<noteq> None
        \<or> execute_result E create_type \<noteq> None \<or> execute_result E create_table \<noteq> None
        \<or> prepare_result E InsertRecord \<noteq> None \<or> prepare_result E SelectName \<noteq> None
        \<or> prepare_result E SelectTmax \<noteq> None \<longrightarrow>
        (\<exists>e. fst (serve E) = Aborted e)
        \<and> StartServer 5440 9 \<notin> set (snd (serve E))
        \<and> Print ''Server started'' \<notin> set (snd (serve E))"
  proof
    assume f: "execute_result E drop_keyspace \<noteq> None \<or> execute_result E create_keyspace \<noteq> None
        \<or> execute_result E create_type \<noteq> None \<or> execute_result E create_table \<noteq> None
        \<or> prepare_result E InsertRecord \<noteq> None \<or> prepare_result E SelectName \<noteq> None
        \<or> prepare_result E SelectTmax \<noteq> None"
    then obtain e where e: "fst (init E) = Inl e" using init_aborts [of E] by blast
    then have "Print ''Server started'' \<notin> set (snd (init E))"
      using init_started [of E] by auto
    with e show "(\<exists>e. fst (serve E) = Aborted e)
        \<and> StartServer 5440 9 \<notin> set (snd (serve E))
        \<and> Print ''Server started'' \<notin> set (snd (serve E))"
      by (simp add: serve_init init_no_start)
  qed
  have C: "connect_result E = None \<longrightarrow>
        take 2 (snd (serve E)) = [Connect (contact_points (project E)) 30, Execute drop_keyspace]"
  proof
    assume c: "connect_result E = None"
    from init_drop_first [OF c] have "length (take 2 (snd (init E))) = 2" by simp
    then have "2 \<le> length (snd (init E))" by simp
    with init_drop_first [OF c] show "take 2 (snd (serve E)) = [Connect (contact_points (project E)) 30, Execute drop_keyspace]"
      by (simp add: serve_init split: sum.splits)
  qed
  show ?thesis
    using A B C
    by (simp add: drop_keyspace_def create_keyspace_def create_type_def create_table_def stations_table_def)
qed

theorem startup_is_fatal_witness:
  "fst (serve healthy_env) = Serving deployed
   \<and> take 6 (snd (serve healthy_env)) = bootstrap healthy_env
   \<and> last (snd (serve healthy_env)) = StartServer 5440 9
   \<and> execute_result create_table_fails create_table \<noteq> None
   \<and> fst (serve create_table_fails) = Aborted (OtherException (Text ''Operation timed out''))
   \<and> StartServer 5440 9 \<notin> set (snd (serve create_table_fails))
   \<and> Print ''Server started'' \<notin> set (snd (serve create_table_fails))"
proof -
  have f: "execute_result create_table_fails create_table \<noteq> None"
    by (simp add: create_table_fails_def)
  from startup_is_fatal [of healthy_env] startup_is_fatal [of create_table_fails]
       serve_healthy serve_create_table_fails f
  show ?thesis by simp
qed

section \<open>Failures in the replies\<close>

lemma record_error_other:
  "\<not> unavailable_outcome e \<Longrightarrow> record_error e = error_reply RecordTempsReply (str e)"
  by (cases e) simp_all

lemma max_error_other:
  "\<not> unavailable_outcome e \<Longrightarrow> max_error e = error_reply (StationMaxReply 0) (str e)"
  by (cases e) simp_all





text \<open>
  When the message of a failure of another class cannot be put in the reply, building the
  reply raises inside the \<open>except\<close> clause and that exception leaves the handler.
\<close>

lemma unencodable_failure_leaves:
  assumes "\<not> unavailable_outcome e" and "str e = Unencodable"
  shows "(execute_name sess (select_name self) station s = (Inl e, s') \<longrightarrow>
            StationName sess self station s = (Inl unicode_encode_error, s'))
         \<and> (execute_insert sess (insert_temp self) station date (tmin, tmax) s = (Some e, s') \<longrightarrow>
            RecordTemps sess self station date tmin tmax s = (Inl unicode_encode_error, s'))
         \<and> (select_tmax self = Some stmt \<and> execute_tmax sess stmt station s = (Inl e, s') \<longrightarrow>
            StationMax sess self station s = (Inl unicode_encode_error, s'))"
  using assms
  by (simp add: StationName_def RecordTemps_def StationMax_def record_error_other max_error_other
      error_reply_def)








end
